theory Spec2Isabelle
  imports Complex_Main
begin

section \<open>JavaScript values and errors\<close>

text \<open>
  The secret read from Secrets Manager is parsed with \<^verbatim>\<open>JSON.parse\<close> and is typed
  \<^verbatim>\<open>any\<close>, so the code handles arbitrary JavaScript values. A number is represented
  by its rational value (both zeros are \<open>JNum 0\<close>) or, for a literal that overflows,
  by \<open>JInf\<close> with its sign. \<open>JUndefined\<close> is the result of reading a property that an
  object does not have. The list of a \<open>JObj\<close> holds the own properties of the object.
\<close>

datatype jsvalue =
    JUndefined
  | JNull
  | JBool bool
  | JNum rat
  | JInf bool
  | JStr string
  | JArr "jsvalue list"
  | JObj "(string \<times> jsvalue) list"

datatype error =
    Error string
  | TypeError string
  | Rejected string

text \<open>
  \<open>Error\<close> is \<^verbatim>\<open>new Error(message)\<close> thrown by the service itself, \<open>TypeError\<close> is
  raised by the language (a property read on \<^verbatim>\<open>null\<close>), and \<open>Rejected\<close> is any error
  raised by a library call: the AWS SDK, \<^verbatim>\<open>JSON.parse\<close>, the \<^verbatim>\<open>pg\<close> pool or
  \<^verbatim>\<open>fetch\<close>.
\<close>

fun truthy :: "jsvalue \<Rightarrow> bool" where
  "truthy JUndefined = False"
| "truthy JNull = False"
| "truthy (JBool b) = b"
| "truthy (JNum r) = (r \<noteq> 0)"
| "truthy (JInf b) = True"
| "truthy (JStr s) = (s \<noteq> [])"
| "truthy (JArr vs) = True"
| "truthy (JObj kvs) = True"

text \<open>
  \<^verbatim>\<open>secret.name\<close> for one of the three names the service reads. None of them is a
  property of a prototype, so a primitive or an array yields \<^verbatim>\<open>undefined\<close>; reading
  a property of \<^verbatim>\<open>null\<close> raises.
\<close>

fun getProp :: "jsvalue \<Rightarrow> string \<Rightarrow> error + jsvalue" where
  "getProp JUndefined k = Inl (TypeError ''Cannot read properties of undefined'')"
| "getProp JNull k = Inl (TypeError ''Cannot read properties of null'')"
| "getProp (JObj kvs) k = Inr (case map_of kvs k of None \<Rightarrow> JUndefined | Some v \<Rightarrow> v)"
| "getProp v k = Inr JUndefined"

section \<open>Configuration, global state and the outside world\<close>

text \<open>The constants read from the environment at the top of \<^verbatim>\<open>index.ts\<close>.\<close>

record config =
  SERVICE_NAME :: string
  DB_SECRET_ARN :: "string option"
  DEPENDENCIES :: "string list"
  AWS_REGION :: string

text \<open>
  A \<^verbatim>\<open>pg\<close> pool as the service deals with it: the options passed to
  \<^verbatim>\<open>new Pool\<close> and, of the state of the pool object, the number of clients that are
  checked out (acquired and not released) and whether \<^verbatim>\<open>end\<close> has been called on it.
\<close>

record pgPool =
  connectionString :: jsvalue
  max_pool :: nat
  idleTimeoutMillis :: nat
  connectionTimeoutMillis :: nat
  ssl_rejectUnauthorized :: bool
  checkedOut :: nat
  ending :: bool

text \<open>
  The calls the service has made on its collaborators. An event is appended when the
  call completes, that is when it returns or the promise it returned settles, whatever
  the outcome; a call whose promise never settles, or during which the process ends,
  leaves no event. \<open>PoolCreated\<close> is appended when the constructor has returned a pool
  (a constructor that throws yields no pool). \<open>PoolConnect\<close>, \<open>ClientQuery\<close>,
  \<open>ClientRelease\<close> and \<open>PoolEnd\<close> act on the pool that \<^verbatim>\<open>dbPool\<close> refers to.
  \<open>HttpFetch url verb timeout\<close> is one \<^verbatim>\<open>fetch\<close>. Log lines are not modelled.
\<close>

datatype event =
    SecretsSend string
  | PoolCreated pgPool
  | PoolConnect
  | ClientQuery string
  | ClientRelease
  | PoolEnd
  | HttpFetch string string nat

text \<open>
  The module's global variables, and \<open>trace\<close>, the history of the calls completed so
  far. \<^verbatim>\<open>dbPool\<close> refers to a pool object, given here with its current state.
  \<^verbatim>\<open>dependencyHealth\<close> is a \<^verbatim>\<open>Map\<close>: its entries in insertion order.
\<close>

record state =
  dbPool :: "pgPool option"
  isHealthy :: bool
  dbConnectionString :: "jsvalue option"
  dependencyHealth :: "(string \<times> bool) list"
  trace :: "event list"

definition initialState :: state where
  "initialState =
     \<lparr>dbPool = None, isHealthy = False, dbConnectionString = None,
      dependencyHealth = [], trace = []\<rparr>"

text \<open>
  What the backing store does with \<^verbatim>\<open>SELECT 1\<close>: it answers, it rejects the query
  while the connection stays up, or the connection is lost while the query runs.
\<close>

datatype queryOutcome = QueryOk | QueryRejected error | ConnectionLost error

text \<open>
  What the outside world answers to the calls that one database cycle can make; each is
  made at most once in a cycle. \<open>secretsSend\<close> is what \<^verbatim>\<open>client.send\<close> settles to:
  an error, or the response's \<^verbatim>\<open>SecretString\<close> (which may be undefined).
  \<open>poolConnect\<close> is what the store answers to a connection attempt and \<open>poolEnd\<close> what
  closing the connections answers: success (\<open>None\<close>) or an error. What a call on the
  pool comes to also depends on the state of the pool; see the next section. The
  promises of \<^verbatim>\<open>send\<close> and of a connection attempt are taken to settle, the latter
  within \<^verbatim>\<open>connectionTimeoutMillis\<close>.
\<close>

record dbWorld =
  secretsSend :: "error + string option"
  jsonParse :: "string \<Rightarrow> error + jsvalue"
  poolNew :: "error option"
  poolConnect :: "error option"
  clientQuery :: queryOutcome
  clientRelease :: "error option"
  poolEnd :: "error option"

definition emit :: "event \<Rightarrow> state \<Rightarrow> state" where
  "emit e s = s\<lparr>trace := trace s @ [e]\<rparr>"

section \<open>The pool library\<close>

text \<open>
  The behaviour of the \<^verbatim>\<open>pg\<close> pool that bears on the service.
  \<^item> \<^verbatim>\<open>pool.connect()\<close> rejects at once on a pool on which \<^verbatim>\<open>end\<close> has been called;
    otherwise it is a connection attempt, and when that succeeds the client is checked
    out until it is released.
  \<^item> \<^verbatim>\<open>client.release()\<close> gives the client back to the pool.
  \<^item> \<^verbatim>\<open>pool.end()\<close> rejects at once when \<^verbatim>\<open>end\<close> has been called before. Otherwise
    it marks the pool as ending and closes the idle clients, and its promise settles once
    no client is checked out: at once when there is none, and never when a client that
    is checked out is not released. \<open>None\<close> stands for a promise that never settles.
  \<^item> A client whose connection is lost emits an \<^verbatim>\<open>error\<close> event. The service registers
    no listener for that event, on the client or on the pool, so the event ends the
    process.
\<close>

definition pgConnect :: "dbWorld \<Rightarrow> pgPool \<Rightarrow> error + pgPool" where
  "pgConnect w p =
     (if ending p then Inl (Error ''Cannot use a pool after calling end on the pool'')
      else case poolConnect w of
             Some e \<Rightarrow> Inl e
           | None \<Rightarrow> Inr (p\<lparr>checkedOut := checkedOut p + 1\<rparr>))"

definition pgRelease :: "dbWorld \<Rightarrow> pgPool \<Rightarrow> error + pgPool" where
  "pgRelease w p =
     (case clientRelease w of
        Some e \<Rightarrow> Inl e
      | None \<Rightarrow> Inr (p\<lparr>checkedOut := checkedOut p - 1\<rparr>))"

definition pgEnd :: "dbWorld \<Rightarrow> pgPool \<Rightarrow> (error + unit) option \<times> pgPool" where
  "pgEnd w p =
     (if ending p then (Some (Inl (Error ''Called end on pool more than once'')), p)
      else if checkedOut p = 0 then
        (Some (case poolEnd w of None \<Rightarrow> Inr () | Some e \<Rightarrow> Inl e), p\<lparr>ending := True\<rparr>)
      else (None, p\<lparr>ending := True\<rparr>))"

text \<open>
  How a call of an asynchronous function of the service comes out: it returns, it
  raises, it stays pending for ever, or the process ends while it runs.
\<close>

datatype completion = Returned | Raised error | Pending | Crashed error

definition completed :: "(error + unit) \<times> state \<Rightarrow> completion \<times> state" where
  "completed r = (case r of (Inr u, s) \<Rightarrow> (Returned, s) | (Inl e, s) \<Rightarrow> (Raised e, s))"

section \<open>The store connection manager\<close>

text \<open>\<^verbatim>\<open>secret.connectionString || secret.url || secret.dbUrl\<close>, evaluated left to right.\<close>

definition selectConnectionString :: "jsvalue \<Rightarrow> error + jsvalue" where
  "selectConnectionString secret =
     (case getProp secret ''connectionString'' of
        Inl e \<Rightarrow> Inl e
      | Inr a \<Rightarrow>
          if truthy a then Inr a
          else (case getProp secret ''url'' of
                  Inl e \<Rightarrow> Inl e
                | Inr b \<Rightarrow> if truthy b then Inr b else getProp secret ''dbUrl''))"

text \<open>
  \<^verbatim>\<open>fetchDatabaseCredentials\<close>. A result \<open>Inl e\<close> is the exception \<open>e\<close> reaching the
  caller; the function's own \<^verbatim>\<open>catch\<close> logs and throws the same error again.
\<close>

definition fetchDatabaseCredentials ::
  "config \<Rightarrow> dbWorld \<Rightarrow> state \<Rightarrow> (error + jsvalue) \<times> state" where
  "fetchDatabaseCredentials cfg w s =
     (case DB_SECRET_ARN cfg of
        None \<Rightarrow> (Inl (Error ''DB_SECRET_ARN environment variable is required''), s)
      | Some arn \<Rightarrow>
          if arn = [] then
            (Inl (Error ''DB_SECRET_ARN environment variable is required''), s)
          else
            let s1 = emit (SecretsSend arn) s in
            (case secretsSend w of
               Inl e \<Rightarrow> (Inl e, s1)
             | Inr None \<Rightarrow> (Inl (Error ''Secret value is empty''), s1)
             | Inr (Some secretString) \<Rightarrow>
                 if secretString = [] then (Inl (Error ''Secret value is empty''), s1)
                 else
                   (case jsonParse w secretString of
                      Inl e \<Rightarrow> (Inl e, s1)
                    | Inr secret \<Rightarrow>
                        (case selectConnectionString secret of
                           Inl e \<Rightarrow> (Inl e, s1)
                         | Inr cs \<Rightarrow>
                             if \<not> truthy cs then
                               (Inl (Error ''No connection string found in secret''), s1)
                             else (Inr cs, s1)))))"

text \<open>
  The pool that \<^verbatim>\<open>new Pool({connectionString: dbConnectionString, max: 5, ...})\<close>
  constructs in \<^verbatim>\<open>initializeDatabase\<close>, given by its options: a new pool has no
  client and is not ending.
\<close>

definition poolOptions :: "jsvalue \<Rightarrow> pgPool" where
  "poolOptions cs =
     \<lparr>connectionString = cs, max_pool = 5, idleTimeoutMillis = 30000,
      connectionTimeoutMillis = 10000, ssl_rejectUnauthorized = False,
      checkedOut = 0, ending = False\<rparr>"

text \<open>The body of the \<^verbatim>\<open>try\<close> block of \<^verbatim>\<open>initializeDatabase\<close>.\<close>

definition initializeDatabase_try ::
  "config \<Rightarrow> dbWorld \<Rightarrow> state \<Rightarrow> (error + unit) \<times> state" where
  "initializeDatabase_try cfg w s =
     (case fetchDatabaseCredentials cfg w s of
        (Inl e, s1) \<Rightarrow> (Inl e, s1)
      | (Inr cs, s1) \<Rightarrow>
          let s2 = s1\<lparr>dbConnectionString := Some cs\<rparr> in
          (case poolNew w of
             Some e \<Rightarrow> (Inl e, s2)
           | None \<Rightarrow>
               let p = poolOptions cs;
                   s3 = emit (PoolCreated p) (s2\<lparr>dbPool := Some p\<rparr>)
               in
               (case pgConnect w p of
                  Inl e \<Rightarrow> (Inl e, emit PoolConnect s3)
                | Inr p1 \<Rightarrow>
                    let s4 = emit PoolConnect (s3\<lparr>dbPool := Some p1\<rparr>) in
                    (case pgRelease w p1 of
                       Inl e \<Rightarrow> (Inl e, emit ClientRelease s4)
                     | Inr p2 \<Rightarrow>
                         (Inr (), (emit ClientRelease (s4\<lparr>dbPool := Some p2\<rparr>))
                                    \<lparr>isHealthy := True\<rparr>)))))"

text \<open>\<^verbatim>\<open>initializeDatabase\<close>: the \<^verbatim>\<open>catch\<close> logs the error and clears the flag.\<close>

definition initializeDatabase ::
  "config \<Rightarrow> dbWorld \<Rightarrow> state \<Rightarrow> (error + unit) \<times> state" where
  "initializeDatabase cfg w s =
     (case initializeDatabase_try cfg w s of
        (Inr u, s') \<Rightarrow> (Inr (), s')
      | (Inl e, s') \<Rightarrow> (Inr (), s'\<lparr>isHealthy := False\<rparr>))"

text \<open>
  The body of the \<^verbatim>\<open>try\<close> block of \<^verbatim>\<open>pingDatabase\<close>, on the pool \<open>p\<close> that
  \<^verbatim>\<open>dbPool\<close> refers to. When the query is rejected, \<^verbatim>\<open>client.release()\<close> is
  skipped and the client stays checked out.
\<close>

definition pingDatabase_try :: "dbWorld \<Rightarrow> pgPool \<Rightarrow> state \<Rightarrow> completion \<times> state" where
  "pingDatabase_try w p s =
     (case pgConnect w p of
        Inl e \<Rightarrow> (Raised e, emit PoolConnect s)
      | Inr p1 \<Rightarrow>
          let s1 = emit PoolConnect (s\<lparr>dbPool := Some p1\<rparr>) in
          (case clientQuery w of
             ConnectionLost e \<Rightarrow> (Crashed e, s1)
           | QueryRejected e \<Rightarrow> (Raised e, emit (ClientQuery ''SELECT 1'') s1)
           | QueryOk \<Rightarrow>
               let s2 = emit (ClientQuery ''SELECT 1'') s1 in
               (case pgRelease w p1 of
                  Inl e \<Rightarrow> (Raised e, emit ClientRelease s2)
                | Inr p2 \<Rightarrow>
                    (Returned, (emit ClientRelease (s2\<lparr>dbPool := Some p2\<rparr>))
                                 \<lparr>isHealthy := True\<rparr>))))"

text \<open>
  \<^verbatim>\<open>await dbPool.end().catch(() => {})\<close> on the pool \<open>q\<close>: a rejection of \<^verbatim>\<open>end\<close>
  is handled, so the awaited promise raises nothing; it settles only if the promise of
  \<^verbatim>\<open>end\<close> does.
\<close>

definition endIgnoringErrors :: "dbWorld \<Rightarrow> pgPool \<Rightarrow> state \<Rightarrow> completion \<times> state" where
  "endIgnoringErrors w q s =
     (case pgEnd w q of
        (None, q') \<Rightarrow> (Pending, s\<lparr>dbPool := Some q'\<rparr>)
      | (Some r, q') \<Rightarrow>
          (case r of
             Inr u \<Rightarrow> (Returned, emit PoolEnd (s\<lparr>dbPool := Some q'\<rparr>))
           | Inl e \<Rightarrow> (Returned, emit PoolEnd (s\<lparr>dbPool := Some q'\<rparr>))))"

text \<open>
  \<^verbatim>\<open>pingDatabase\<close>, one cycle of the database timer. An exception of the
  \<^verbatim>\<open>try\<close> block is caught; the end of the process is not. The assignment
  \<^verbatim>\<open>dbPool = null\<close> runs when the awaited \<^verbatim>\<open>end\<close> has settled.
\<close>

definition pingDatabase :: "config \<Rightarrow> dbWorld \<Rightarrow> state \<Rightarrow> completion \<times> state" where
  "pingDatabase cfg w s =
     (case dbPool s of
        None \<Rightarrow> completed (initializeDatabase cfg w s)
      | Some p \<Rightarrow>
          (case pingDatabase_try w p s of
             (Returned, s') \<Rightarrow> (Returned, s')
           | (Pending, s') \<Rightarrow> (Pending, s')
           | (Crashed e, s') \<Rightarrow> (Crashed e, s')
           | (Raised e, s') \<Rightarrow>
               let s1 = s'\<lparr>isHealthy := False\<rparr> in
               (case dbPool s1 of
                  None \<Rightarrow> (Returned, s1)
                | Some q \<Rightarrow>
                    (case endIgnoringErrors w q s1 of
                       (Returned, s2) \<Rightarrow> (Returned, s2\<lparr>dbPool := None\<rparr>)
                     | (Pending, s2) \<Rightarrow> (Pending, s2)
                     | (Crashed e', s2) \<Rightarrow> (Crashed e', s2)
                     | (Raised e', s2) \<Rightarrow> (Raised e', s2)))))"

section \<open>The dependency checker\<close>

text \<open>What the service reads of a \<^verbatim>\<open>fetch\<close> response: \<^verbatim>\<open>response.ok\<close> is a status in 200..299.\<close>

record response =
  status :: nat

definition ok :: "response \<Rightarrow> bool" where
  "ok r = (200 \<le> status r \<and> status r \<le> 299)"

text \<open>
  \<^verbatim>\<open>pingDependency\<close>. The first argument is what \<^verbatim>\<open>fetch(url, {method, signal})\<close>
  settles to for a URL, a verb and a timeout in milliseconds: a response, or an error
  (a transport error, or the abort raised when the timeout expires).
\<close>

definition pingDependency_try ::
  "(string \<Rightarrow> string \<Rightarrow> nat \<Rightarrow> error + response) \<Rightarrow> string \<Rightarrow> state \<Rightarrow> (error + bool) \<times> state" where
  "pingDependency_try fetch dependencyUrl s =
     (let s1 = emit (HttpFetch (dependencyUrl @ ''/health'') ''GET'' 5000) s in
      case fetch (dependencyUrl @ ''/health'') ''GET'' 5000 of
        Inl e \<Rightarrow> (Inl e, s1)
      | Inr r \<Rightarrow> (Inr (ok r), s1))"

definition pingDependency ::
  "(string \<Rightarrow> string \<Rightarrow> nat \<Rightarrow> error + response) \<Rightarrow> string \<Rightarrow> state \<Rightarrow> (error + bool) \<times> state" where
  "pingDependency fetch dependencyUrl s =
     (case pingDependency_try fetch dependencyUrl s of
        (Inr success, s') \<Rightarrow> (Inr success, s')
      | (Inl e, s') \<Rightarrow> (Inr False, s'))"

text \<open>\<^verbatim>\<open>Map.prototype.set\<close>: an existing key keeps its place, a new key goes last.\<close>

fun mapSet :: "('k \<times> 'v) list \<Rightarrow> 'k \<Rightarrow> 'v \<Rightarrow> ('k \<times> 'v) list" where
  "mapSet [] k v = [(k, v)]"
| "mapSet ((k', v') # m) k v = (if k' = k then (k, v) # m else (k', v') # mapSet m k v)"

text \<open>
  One round of dependency probes. The probes of a round run concurrently: \<open>httpFetch w i\<close>
  is what the probe of the \<open>i\<close>-th declared dependency settles to, and \<open>completion w\<close> is
  the order in which the probes settle (positions in \<^verbatim>\<open>DEPENDENCIES\<close>; a number
  that is no position stands for no probe). The callback of a probe runs when the probe
  settles, so the callbacks run in that order; each is recorded in the trace at that moment.
\<close>

record depWorld =
  httpFetch :: "nat \<Rightarrow> string \<Rightarrow> string \<Rightarrow> nat \<Rightarrow> error + response"
  completion :: "nat list"

text \<open>The \<^verbatim>\<open>async (dep) => ...\<close> callback, for the dependency at position \<open>i\<close>.\<close>

definition probeCallback :: "config \<Rightarrow> depWorld \<Rightarrow> nat \<Rightarrow> state \<Rightarrow> (error + unit) \<times> state" where
  "probeCallback cfg w i s =
     (let dep = DEPENDENCIES cfg ! i in
      case pingDependency (httpFetch w i) dep s of
        (Inl e, s1) \<Rightarrow> (Inl e, s1)
      | (Inr healthy, s1) \<Rightarrow>
          (Inr (), s1\<lparr>dependencyHealth := mapSet (dependencyHealth s1) dep healthy\<rparr>))"

text \<open>
  \<^verbatim>\<open>Promise.allSettled\<close> waits for every callback and raises for none of them: a
  rejected callback only becomes an entry of the result array.
\<close>

fun allSettled :: "config \<Rightarrow> depWorld \<Rightarrow> nat list \<Rightarrow> state \<Rightarrow> state" where
  "allSettled cfg w [] s = s"
| "allSettled cfg w (i # rest) s =
     (if i < length (DEPENDENCIES cfg)
      then allSettled cfg w rest (snd (probeCallback cfg w i s))
      else allSettled cfg w rest s)"

text \<open>\<^verbatim>\<open>pingDependencies\<close>; the count of healthy dependencies is only logged.\<close>

definition pingDependencies :: "config \<Rightarrow> depWorld \<Rightarrow> state \<Rightarrow> (error + unit) \<times> state" where
  "pingDependencies cfg w s =
     (if length (DEPENDENCIES cfg) = 0 then (Inr (), s)
      else (Inr (), allSettled cfg w (completion w) s))"

section \<open>The health endpoint\<close>

text \<open>
  The handler of \<^verbatim>\<open>GET /health\<close>: the status code and the JSON body. \<open>now\<close> is
  \<^verbatim>\<open>new Date().toISOString()\<close>. \<^verbatim>\<open>Object.fromEntries\<close> turns the entries of the
  map into the properties of an object.
\<close>

definition fromEntries :: "(string \<times> bool) list \<Rightarrow> jsvalue" where
  "fromEntries m = JObj (map (\<lambda>(k, b). (k, JBool b)) m)"

definition health :: "config \<Rightarrow> string \<Rightarrow> state \<Rightarrow> nat \<times> jsvalue" where
  "health cfg now s =
     (let healthStatus =
            JObj [(''service'', JStr (SERVICE_NAME cfg)),
                  (''status'', JStr (if isHealthy s then ''healthy'' else ''unhealthy'')),
                  (''timestamp'', JStr now),
                  (''database'', JStr (if isHealthy s then ''connected'' else ''disconnected'')),
                  (''dependencies'', fromEntries (dependencyHealth s))];
          statusCode = (if isHealthy s then 200 else 503)
      in (statusCode, healthStatus))"

text \<open>The value of a property of a JSON object, \<open>None\<close> when the object has no such property.\<close>

fun field :: "jsvalue \<Rightarrow> string \<Rightarrow> jsvalue option" where
  "field (JObj kvs) k = map_of kvs k"
| "field v k = None"

section \<open>Start-up and the timers\<close>

text \<open>
  The part of \<^verbatim>\<open>main\<close> that touches the health state: one initialization and, when
  dependencies are declared, one round of probes, before the timers start. An error
  would reject \<^verbatim>\<open>main\<close> and end the process.
\<close>

definition main :: "config \<Rightarrow> dbWorld \<Rightarrow> depWorld \<Rightarrow> (error + unit) \<times> state" where
  "main cfg w d =
     (case initializeDatabase cfg w initialState of
        (Inl e, s) \<Rightarrow> (Inl e, s)
      | (Inr u, s) \<Rightarrow>
          if length (DEPENDENCIES cfg) > 0 then pingDependencies cfg d s else (Inr (), s))"

text \<open>
  \<^verbatim>\<open>startPingTimers\<close>: a firing of one of the two interval timers, with what the
  outside world answers during the cycle. The dependency timer is installed only when
  dependencies are declared. \<open>IdleClientError\<close> is what can happen between two cycles:
  the store drops a connection that sits idle in the pool, the pool emits \<^verbatim>\<open>error\<close>,
  and since no listener is registered the process ends. A pool holds an idle client for
  at most \<^verbatim>\<open>idleTimeoutMillis\<close> after a release and none once it is ending; the model
  lets the event strike whenever a pool that is not ending is held.
\<close>

datatype tick = DatabaseTick dbWorld | DependenciesTick depWorld | IdleClientError error

definition fire :: "config \<Rightarrow> tick \<Rightarrow> state \<Rightarrow> completion \<times> state" where
  "fire cfg t s =
     (case t of
        DatabaseTick w \<Rightarrow> pingDatabase cfg w s
      | DependenciesTick d \<Rightarrow>
          if length (DEPENDENCIES cfg) > 0 then completed (pingDependencies cfg d s)
          else (Returned, s)
      | IdleClientError e \<Rightarrow>
          (case dbPool s of
             None \<Rightarrow> (Returned, s)
           | Some p \<Rightarrow> if ending p then (Returned, s) else (Crashed e, s)))"

text \<open>
  Cycles are run one after the other. A cycle that raised would be an unhandled
  rejection, which ends the process, so the run stops there, as it does when the
  process ends during a cycle. A cycle that stays pending does not stop the timers: it
  never resumes, and the later cycles run in the state it left.
\<close>

fun run :: "config \<Rightarrow> tick list \<Rightarrow> state \<Rightarrow> completion \<times> state" where
  "run cfg [] s = (Returned, s)"
| "run cfg (t # ts) s =
     (case fire cfg t s of
        (Returned, s') \<Rightarrow> run cfg ts s'
      | (Pending, s') \<Rightarrow> run cfg ts s'
      | (Raised e, s') \<Rightarrow> (Raised e, s')
      | (Crashed e, s') \<Rightarrow> (Crashed e, s'))"

definition service :: "config \<Rightarrow> dbWorld \<Rightarrow> depWorld \<Rightarrow> tick list \<Rightarrow> completion \<times> state" where
  "service cfg w d ts =
     (case main cfg w d of
        (Inl e, s) \<Rightarrow> (Raised e, s)
      | (Inr u, s) \<Rightarrow> run cfg ts s)"

section \<open>Notions of the specification\<close>

text \<open>
  The first truthy value of a list of candidates, and the value of a named field of a
  parsed secret object (\<^verbatim>\<open>undefined\<close> when the field is absent).
\<close>

definition firstTruthy :: "jsvalue list \<Rightarrow> jsvalue option" where
  "firstTruthy vs = find truthy vs"

definition ownProperty :: "(string \<times> jsvalue) list \<Rightarrow> string \<Rightarrow> jsvalue" where
  "ownProperty kvs k = (case map_of kvs k of None \<Rightarrow> JUndefined | Some v \<Rightarrow> v)"

text \<open>
  The life of connection handles, read off the trace. \<open>Some h\<close> says that the history
  so far is orderly and that a handle exists now (\<open>h\<close>) or not; \<open>None\<close> says that a
  pool was created while another one existed, or that a pool was ended when none existed.
\<close>

fun track :: "bool option \<Rightarrow> event \<Rightarrow> bool option" where
  "track None e = None"
| "track (Some h) (PoolCreated p) = (if h then None else Some True)"
| "track (Some h) PoolEnd = (if h then Some False else None)"
| "track (Some h) e = Some h"

definition handleHistory :: "event list \<Rightarrow> bool option" where
  "handleHistory tr = foldl track (Some False) tr"

text \<open>
  A cycle in which the backing store is up: it accepts connections and answers the
  query, and constructing a pool and releasing a client succeed. The secret is
  available when the credential fetch returns a connection string.
\<close>

definition backingStoreUp :: "dbWorld \<Rightarrow> bool" where
  "backingStoreUp w =
     (poolNew w = None \<and> poolConnect w = None \<and> clientQuery w = QueryOk
      \<and> clientRelease w = None)"

definition secretAvailable :: "config \<Rightarrow> dbWorld \<Rightarrow> bool" where
  "secretAvailable cfg w = (\<not> isl (fst (fetchDatabaseCredentials cfg w initialState)))"



text \<open>
  The liveness that a probe reports: a response was received and its status is a
  success. \<open>lastSettled deps order v\<close> is the position of the probe of URL \<open>v\<close> that
  settles last in a round, if \<open>v\<close> is probed at all.
\<close>

definition probeOk :: "depWorld \<Rightarrow> nat \<Rightarrow> string \<Rightarrow> bool" where
  "probeOk w i dep =
     (case httpFetch w i (dep @ ''/health'') ''GET'' 5000 of Inr r \<Rightarrow> ok r | Inl e \<Rightarrow> False)"

fun lastSettled :: "string list \<Rightarrow> nat list \<Rightarrow> string \<Rightarrow> nat option" where
  "lastSettled deps [] v = None"
| "lastSettled deps (i # rest) v =
     (case lastSettled deps rest v of
        Some j \<Rightarrow> Some j
      | None \<Rightarrow> if i < length deps \<and> deps ! i = v then Some i else None)"

section \<open>Example inputs\<close>

text \<open>
  A service with two declared dependencies; a cycle in which every call succeeds and one
  in which the store refuses connections and \<^verbatim>\<open>end\<close> fails too; a round in which
  the first dependency times out, and one in which both answer. The text of the secret
  is written without its quotation marks; \<open>jsonParse\<close> gives the object it denotes.
  \<open>worldQueryRejected\<close> is a cycle in which the store accepts the connection and then
  cancels the query, and \<open>worldConnectionLost\<close> one in which the connection breaks
  while the query runs.
\<close>

definition exampleConfig :: config where
  "exampleConfig =
     \<lparr>SERVICE_NAME = ''orders'', DB_SECRET_ARN = Some ''arn:aws:secretsmanager:db'',
      DEPENDENCIES = [''http://billing:3000'', ''http://stock:3000''],
      AWS_REGION = ''us-east-1''\<rparr>"

definition worldUp :: dbWorld where
  "worldUp =
     \<lparr>secretsSend = Inr (Some ''{connectionString: postgres://db}''),
      jsonParse = (\<lambda>text. Inr (JObj [(''connectionString'', JStr ''postgres://db'')])),
      poolNew = None, poolConnect = None, clientQuery = QueryOk, clientRelease = None,
      poolEnd = None\<rparr>"

definition worldDown :: dbWorld where
  "worldDown =
     worldUp\<lparr>poolConnect := Some (Rejected ''connect ECONNREFUSED''),
             poolEnd := Some (Rejected ''end failed'')\<rparr>"

definition worldQueryRejected :: dbWorld where
  "worldQueryRejected =
     worldUp\<lparr>clientQuery :=
               QueryRejected (Rejected ''canceling statement due to statement timeout'')\<rparr>"

definition worldConnectionLost :: dbWorld where
  "worldConnectionLost =
     worldUp\<lparr>clientQuery := ConnectionLost (Rejected ''Connection terminated unexpectedly'')\<rparr>"

definition examplePool :: pgPool where
  "examplePool =
     \<lparr>connectionString = JStr ''postgres://db'', max_pool = 5, idleTimeoutMillis = 30000,
      connectionTimeoutMillis = 10000, ssl_rejectUnauthorized = False,
      checkedOut = 0, ending = False\<rparr>"

definition exampleDepWorld :: depWorld where
  "exampleDepWorld =
     \<lparr>httpFetch = (\<lambda>i url verb timeout.
                     if i = 0 then Inl (Rejected ''The operation was aborted due to timeout'')
                     else Inr \<lparr>status = 200\<rparr>),
      completion = [1, 0]\<rparr>"

definition exampleDepWorldUp :: depWorld where
  "exampleDepWorldUp =
     \<lparr>httpFetch = (\<lambda>i url verb timeout. Inr \<lparr>status = 200\<rparr>), completion = [1, 0]\<rparr>"

section \<open>Basic facts\<close>

lemma trace_emit [simp]: "trace (emit e s) = trace s @ [e]"
  and dbPool_emit [simp]: "dbPool (emit e s) = dbPool s"
  and isHealthy_emit [simp]: "isHealthy (emit e s) = isHealthy s"
  and dependencyHealth_emit [simp]: "dependencyHealth (emit e s) = dependencyHealth s"
  and dbConnectionString_emit [simp]: "dbConnectionString (emit e s) = dbConnectionString s"
  by (simp_all add: emit_def)

lemma snd_completed: "snd (completed r) = snd r"
  by (cases r; cases "fst r") (simp_all add: completed_def)

lemma fst_completed: "fst (completed r) = (case fst r of Inr u \<Rightarrow> Returned | Inl e \<Rightarrow> Raised e)"
  by (cases r; cases "fst r") (simp_all add: completed_def)

lemma handleHistory_append [simp]:
  "handleHistory (tr @ es) = foldl track (handleHistory tr) es"
  by (simp add: handleHistory_def)

lemma track_neutral [simp]:
  "track h PoolConnect = h" "track h (ClientQuery q) = h" "track h ClientRelease = h"
  "track h (SecretsSend a) = h" "track h (HttpFetch u v t) = h"
  by (cases h; simp)+

lemma track_None [simp]: "foldl track None es = None"
  by (induction es) simp_all





section \<open>The credential fetch\<close>

lemma selectConnectionString_JObj:
  "selectConnectionString (JObj kvs) =
     Inr (if truthy (ownProperty kvs ''connectionString'') then ownProperty kvs ''connectionString''
          else if truthy (ownProperty kvs ''url'') then ownProperty kvs ''url''
          else ownProperty kvs ''dbUrl'')"
  by (simp add: selectConnectionString_def ownProperty_def)

lemma fetch_result_independent:
  "fst (fetchDatabaseCredentials cfg w s) = fst (fetchDatabaseCredentials cfg w t)"
  by (simp add: fetchDatabaseCredentials_def Let_def split: option.splits sum.splits)

lemma fetch_frame:
  "dbPool (snd (fetchDatabaseCredentials cfg w s)) = dbPool s"
  "isHealthy (snd (fetchDatabaseCredentials cfg w s)) = isHealthy s"
  "dependencyHealth (snd (fetchDatabaseCredentials cfg w s)) = dependencyHealth s"
  by (simp_all add: fetchDatabaseCredentials_def Let_def split: option.splits sum.splits)


lemma fetch_success:
  assumes "fst (fetchDatabaseCredentials cfg w s) = Inr cs"
  shows "\<exists>arn. DB_SECRET_ARN cfg = Some arn \<and> arn \<noteq> [] \<and> truthy cs
              \<and> fetchDatabaseCredentials cfg w s = (Inr cs, emit (SecretsSend arn) s)"
  using assms
  by (auto simp add: fetchDatabaseCredentials_def Let_def split: option.splits sum.splits if_splits)

text \<open>
  C10. For every parsed secret object, the credential fetch returns the first truthy
  value among the fields \<^verbatim>\<open>connectionString\<close>, \<^verbatim>\<open>url\<close> and \<^verbatim>\<open>dbUrl\<close>, in
  that order, so that a field that is present but falsy is passed over; when none of
  the three is truthy the fetch raises an error and returns no value.
\<close>

theorem fetchDatabaseCredentials_first_truthy:
  assumes "DB_SECRET_ARN cfg = Some arn" and "arn \<noteq> []"
    and "secretsSend w = Inr (Some secretString)" and "secretString \<noteq> []"
    and "jsonParse w secretString = Inr (JObj kvs)"
  shows "fst (fetchDatabaseCredentials cfg w s) =
           (case firstTruthy [ownProperty kvs ''connectionString'', ownProperty kvs ''url'',
                              ownProperty kvs ''dbUrl''] of
              Some v \<Rightarrow> Inr v
            | None \<Rightarrow> Inl (Error ''No connection string found in secret''))"
  using assms
  by (simp add: fetchDatabaseCredentials_def selectConnectionString_JObj firstTruthy_def Let_def)

theorem fetchDatabaseCredentials_first_truthy_witness:
  "fst (fetchDatabaseCredentials exampleConfig
          (worldUp\<lparr>jsonParse := (\<lambda>text. Inr (JObj [(''connectionString'', JStr []),
                                     (''url'', JNum 0), (''dbUrl'', JStr ''postgres://db'')]))\<rparr>)
          initialState) = Inr (JStr ''postgres://db'')"
proof -
  let ?w = "worldUp\<lparr>jsonParse := (\<lambda>text. Inr (JObj [(''connectionString'', JStr []),
                                     (''url'', JNum 0), (''dbUrl'', JStr ''postgres://db'')]))\<rparr>"
  have arn: "DB_SECRET_ARN exampleConfig = Some ''arn:aws:secretsmanager:db''"
    "''arn:aws:secretsmanager:db'' \<noteq> []"
    by (simp_all add: exampleConfig_def)
  have secret: "secretsSend ?w = Inr (Some ''{connectionString: postgres://db}'')"
    "''{connectionString: postgres://db}'' \<noteq> []"
    "jsonParse ?w ''{connectionString: postgres://db}'' =
       Inr (JObj [(''connectionString'', JStr []), (''url'', JNum 0),
                  (''dbUrl'', JStr ''postgres://db'')])"
    by (simp_all add: worldUp_def)
  from fetchDatabaseCredentials_first_truthy [OF arn secret, of initialState]
  show ?thesis
    by (simp add: firstTruthy_def ownProperty_def)
qed

section \<open>Initialization\<close>

lemma initializeDatabase_never_raises: "fst (initializeDatabase cfg w s) = Inr ()"
  by (simp add: initializeDatabase_def split: prod.splits sum.splits)

lemma initializeDatabase_try_failed_fetch:
  assumes "fetchDatabaseCredentials cfg w s = (Inl e, s1)"
  shows "initializeDatabase cfg w s = (Inr (), s1\<lparr>isHealthy := False\<rparr>)"
  using assms by (simp add: initializeDatabase_def initializeDatabase_try_def)

lemma initializeDatabase_fetched:
  assumes "fetchDatabaseCredentials cfg w s = (Inr cs, s1)"
  shows "initializeDatabase cfg w s =
           (let s2 = s1\<lparr>dbConnectionString := Some cs\<rparr>;
                p = poolOptions cs;
                s3 = s2\<lparr>dbPool := Some p\<rparr>
            in if poolNew w \<noteq> None then (Inr (), s2\<lparr>isHealthy := False\<rparr>)
               else if poolConnect w \<noteq> None
                 then (Inr (), s3\<lparr>trace := trace s1 @ [PoolCreated p, PoolConnect], isHealthy := False\<rparr>)
               else if clientRelease w \<noteq> None
                 then (Inr (), s2\<lparr>dbPool := Some (p\<lparr>checkedOut := 1\<rparr>),
                                   trace := trace s1 @ [PoolCreated p, PoolConnect, ClientRelease],
                                   isHealthy := False\<rparr>)
               else (Inr (), s3\<lparr>trace := trace s1 @ [PoolCreated p, PoolConnect, ClientRelease],
                                 isHealthy := True\<rparr>))"
  using assms
  by (cases "poolNew w"; cases "poolConnect w"; cases "clientRelease w";
      simp add: initializeDatabase_def initializeDatabase_try_def pgConnect_def pgRelease_def
        poolOptions_def emit_def Let_def)

lemma initializeDatabase_isHealthy:
  "isHealthy (snd (initializeDatabase cfg w s)) =
     (secretAvailable cfg w \<and> poolNew w = None \<and> poolConnect w = None \<and> clientRelease w = None)"
proof (cases "fetchDatabaseCredentials cfg w s")
  case (Pair r s1)
  show ?thesis
  proof (cases r)
    case (Inl e)
    have "fst (fetchDatabaseCredentials cfg w initialState) = fst (fetchDatabaseCredentials cfg w s)"
      by (rule fetch_result_independent)
    with Pair Inl have "isl (fst (fetchDatabaseCredentials cfg w initialState))"
      by simp
    with Pair Inl show ?thesis
      by (simp add: initializeDatabase_try_failed_fetch secretAvailable_def)
  next
    case (Inr cs)
    have "fst (fetchDatabaseCredentials cfg w initialState) = fst (fetchDatabaseCredentials cfg w s)"
      by (rule fetch_result_independent)
    with Pair Inr have "\<not> isl (fst (fetchDatabaseCredentials cfg w initialState))"
      by simp
    with Pair Inr show ?thesis
      by (simp add: initializeDatabase_fetched secretAvailable_def Let_def)
  qed
qed

lemma initializeDatabase_dependencyHealth:
  "dependencyHealth (snd (initializeDatabase cfg w s)) = dependencyHealth s"
proof (cases "fetchDatabaseCredentials cfg w s")
  case (Pair r s1)
  then have "dependencyHealth s1 = dependencyHealth s"
    using fetch_frame(3) [of cfg w s] by simp
  with Pair show ?thesis
    by (cases r) (simp_all add: initializeDatabase_try_failed_fetch initializeDatabase_fetched Let_def)
qed


lemma initializeDatabase_dbPool:
  "dbPool (snd (initializeDatabase cfg w s)) =
     (case fst (fetchDatabaseCredentials cfg w s) of
        Inl e \<Rightarrow> dbPool s
      | Inr cs \<Rightarrow>
          if poolNew w \<noteq> None then dbPool s
          else if poolConnect w = None \<and> clientRelease w \<noteq> None
            then Some ((poolOptions cs)\<lparr>checkedOut := 1\<rparr>)
          else Some (poolOptions cs))"
proof (cases "fetchDatabaseCredentials cfg w s")
  case (Pair r s1)
  then have "dbPool s1 = dbPool s"
    using fetch_frame(1) [of cfg w s] by simp
  with Pair show ?thesis
    by (cases r) (simp_all add: initializeDatabase_try_failed_fetch initializeDatabase_fetched Let_def)
qed

text \<open>
  C1. A failed initialization clears the status and returns normally, but it does not
  always leave the handle reference empty: when the secret is fetched and the pool is
  constructed, a failing first acquisition leaves the new pool installed in
  \<^verbatim>\<open>dbPool\<close>. Here the store refuses the connection at start-up.
\<close>

theorem initializeDatabase_probe_failure_keeps_pool:
  "dbPool initialState = None
   \<and> initializeDatabase exampleConfig worldDown initialState =
       (Inr (), \<lparr>dbPool = Some examplePool, isHealthy = False,
                 dbConnectionString = Some (JStr ''postgres://db''), dependencyHealth = [],
                 trace = [SecretsSend ''arn:aws:secretsmanager:db'', PoolCreated examplePool,
                          PoolConnect]\<rparr>)"
  by (simp add: initializeDatabase_def initializeDatabase_try_def poolOptions_def pgConnect_def
      fetchDatabaseCredentials_def selectConnectionString_def emit_def exampleConfig_def
      worldDown_def worldUp_def examplePool_def initialState_def Let_def)

text \<open>
  C4, as the code has it. A cycle that starts with no handle ends with the status set
  exactly when the secret is fetched, the pool is constructed, a client is acquired and
  that client is released; in that case the calls of the cycle are, in this order, the
  secret fetch, the construction of a pool of at most 5 connections, one acquisition and
  the release of the acquired client. The initial probe issues no query.
\<close>

theorem initialization_probe_is_acquire_release:
  assumes "dbPool s = None"
  shows "isHealthy (snd (pingDatabase cfg w s)) =
           (secretAvailable cfg w \<and> poolNew w = None \<and> poolConnect w = None
            \<and> clientRelease w = None)
       \<and> (isHealthy (snd (pingDatabase cfg w s)) \<longrightarrow>
           (\<exists>arn cs. DB_SECRET_ARN cfg = Some arn
              \<and> fst (fetchDatabaseCredentials cfg w s) = Inr cs
              \<and> max_pool (poolOptions cs) = 5
              \<and> snd (pingDatabase cfg w s) =
                  s\<lparr>dbConnectionString := Some cs,
                    dbPool := Some (poolOptions cs),
                    trace := trace s @
                      [SecretsSend arn,
                       PoolCreated (poolOptions cs),
                       PoolConnect, ClientRelease],
                    isHealthy := True\<rparr>))"
proof -
  have init: "snd (pingDatabase cfg w s) = snd (initializeDatabase cfg w s)"
    using assms by (simp add: pingDatabase_def snd_completed)
  have "\<exists>arn cs. DB_SECRET_ARN cfg = Some arn
              \<and> fst (fetchDatabaseCredentials cfg w s) = Inr cs
              \<and> max_pool (poolOptions cs) = 5
              \<and> snd (initializeDatabase cfg w s) =
                  s\<lparr>dbConnectionString := Some cs,
                    dbPool := Some (poolOptions cs),
                    trace := trace s @
                      [SecretsSend arn,
                       PoolCreated (poolOptions cs),
                       PoolConnect, ClientRelease],
                    isHealthy := True\<rparr>"
    if healthy: "isHealthy (snd (initializeDatabase cfg w s))"
  proof -
    from healthy have up: "secretAvailable cfg w" "poolNew w = None" "poolConnect w = None"
      "clientRelease w = None"
      by (simp_all add: initializeDatabase_isHealthy)
    from up(1) have "\<not> isl (fst (fetchDatabaseCredentials cfg w initialState))"
      by (simp add: secretAvailable_def)
    then obtain cs where "fst (fetchDatabaseCredentials cfg w initialState) = Inr cs"
      by (cases "fst (fetchDatabaseCredentials cfg w initialState)") auto
    then have cs: "fst (fetchDatabaseCredentials cfg w s) = Inr cs"
      using fetch_result_independent [of cfg w s initialState] by simp
    from fetch_success [OF cs] obtain arn where arn: "DB_SECRET_ARN cfg = Some arn"
      and fetched: "fetchDatabaseCredentials cfg w s = (Inr cs, emit (SecretsSend arn) s)"
      by blast
    from up have "snd (initializeDatabase cfg w s) =
                  s\<lparr>dbConnectionString := Some cs,
                    dbPool := Some (poolOptions cs),
                    trace := trace s @
                      [SecretsSend arn,
                       PoolCreated (poolOptions cs),
                       PoolConnect, ClientRelease],
                    isHealthy := True\<rparr>"
      by (simp add: initializeDatabase_fetched [OF fetched] emit_def Let_def)
    moreover have "max_pool (poolOptions cs) = 5"
      by (simp add: poolOptions_def)
    ultimately show ?thesis
      using arn cs by blast
  qed
  with init show ?thesis
    by (simp add: initializeDatabase_isHealthy)
qed

theorem initialization_probe_is_acquire_release_witness:
  "dbPool initialState = None
   \<and> isHealthy (snd (pingDatabase exampleConfig worldUp initialState))
   \<and> snd (pingDatabase exampleConfig worldUp initialState) =
       initialState\<lparr>dbConnectionString := Some (JStr ''postgres://db''),
                    dbPool := Some examplePool,
                    trace := [SecretsSend ''arn:aws:secretsmanager:db'', PoolCreated examplePool,
                              PoolConnect, ClientRelease],
                    isHealthy := True\<rparr>"
proof -
  have none: "dbPool initialState = None"
    by (simp add: initialState_def)
  have up: "secretAvailable exampleConfig worldUp" "poolNew worldUp = None"
    "poolConnect worldUp = None" "clientRelease worldUp = None"
    by (simp_all add: secretAvailable_def fetchDatabaseCredentials_def
        selectConnectionString_def exampleConfig_def worldUp_def Let_def)
  have fetched: "fst (fetchDatabaseCredentials exampleConfig worldUp initialState) =
      Inr (JStr ''postgres://db'')"
    by (simp add: fetchDatabaseCredentials_def selectConnectionString_def exampleConfig_def
        worldUp_def Let_def)
  have arn: "DB_SECRET_ARN exampleConfig = Some ''arn:aws:secretsmanager:db''"
    by (simp add: exampleConfig_def)
  from initialization_probe_is_acquire_release [OF none, of exampleConfig worldUp] up fetched arn none
  show ?thesis
    by (auto simp add: examplePool_def poolOptions_def initialState_def)
qed

text \<open>
  C4, as stated, fails: the initialization that marks the store connected has acquired
  and released a client without running \<^verbatim>\<open>SELECT 1\<close> or any other query.
\<close>

theorem initialization_issues_no_query:
  "dbPool initialState = None
   \<and> isHealthy (snd (pingDatabase exampleConfig worldUp initialState))
   \<and> trace (snd (pingDatabase exampleConfig worldUp initialState)) =
       [SecretsSend ''arn:aws:secretsmanager:db'', PoolCreated examplePool, PoolConnect,
        ClientRelease]
   \<and> ClientQuery ''SELECT 1'' \<notin> set (trace (snd (pingDatabase exampleConfig worldUp initialState)))"
  by (simp add: pingDatabase_def completed_def initializeDatabase_def initializeDatabase_try_def
      poolOptions_def pgConnect_def pgRelease_def fetchDatabaseCredentials_def
      selectConnectionString_def emit_def exampleConfig_def worldUp_def
      examplePool_def initialState_def Let_def)

section \<open>Verification of a held connection\<close>

lemma pingDatabase_try_frame:
  assumes "dbPool s = Some p"
  shows "dbPool (snd (pingDatabase_try w p s)) \<noteq> None"
    and "dependencyHealth (snd (pingDatabase_try w p s)) = dependencyHealth s"
    and "handleHistory (trace (snd (pingDatabase_try w p s))) = handleHistory (trace s)"
  using assms
  by (simp_all add: pingDatabase_try_def Let_def split: sum.splits queryOutcome.splits)

lemma pingDatabase_try_not_Pending: "fst (pingDatabase_try w p s) \<noteq> Pending"
  by (simp add: pingDatabase_try_def Let_def split: sum.splits queryOutcome.splits)

lemma endIgnoringErrors_settles:
  assumes "ending q \<or> checkedOut q = 0"
  shows "endIgnoringErrors w q s = (Returned, emit PoolEnd (s\<lparr>dbPool := Some (q\<lparr>ending := True\<rparr>)\<rparr>))"
proof (cases "ending q")
  case True
  then have "q\<lparr>ending := True\<rparr> = q"
    by (cases q) simp
  with True show ?thesis
    by (simp add: endIgnoringErrors_def pgEnd_def)
next
  case False
  with assms show ?thesis
    by (cases "poolEnd w") (simp_all add: endIgnoringErrors_def pgEnd_def)
qed

lemma endIgnoringErrors_pending:
  assumes "\<not> ending q" and "checkedOut q \<noteq> 0"
  shows "endIgnoringErrors w q s = (Pending, s\<lparr>dbPool := Some (q\<lparr>ending := True\<rparr>)\<rparr>)"
  using assms by (simp add: endIgnoringErrors_def pgEnd_def)

lemma pingDatabase_completed:
  assumes "dbPool s = Some p" and "pingDatabase_try w p s = (c, s')" and "\<forall>e. c \<noteq> Raised e"
  shows "pingDatabase cfg w s = (c, s')"
  using assms by (cases c) (simp_all add: pingDatabase_def)

lemma pingDatabase_caught:
  assumes "dbPool s = Some p" and "pingDatabase_try w p s = (Raised e, s')"
    and "dbPool s' = Some q"
  shows "pingDatabase cfg w s =
           (if ending q \<or> checkedOut q = 0
            then (Returned, s'\<lparr>isHealthy := False, trace := trace s' @ [PoolEnd], dbPool := None\<rparr>)
            else (Pending, s'\<lparr>isHealthy := False, dbPool := Some (q\<lparr>ending := True\<rparr>)\<rparr>))"
proof (cases "ending q \<or> checkedOut q = 0")
  case True
  with assms show ?thesis
    by (simp add: pingDatabase_def endIgnoringErrors_settles emit_def Let_def)
next
  case False
  with assms show ?thesis
    by (simp add: pingDatabase_def endIgnoringErrors_pending Let_def)
qed

lemma pingDatabase_never_raises: "fst (pingDatabase cfg w s) \<noteq> Raised e"
proof (cases "dbPool s")
  case None
  then show ?thesis
    using initializeDatabase_never_raises [of cfg w s]
    by (simp add: pingDatabase_def fst_completed)
next
  case (Some p)
  obtain c s' where tried: "pingDatabase_try w p s = (c, s')"
    by (cases "pingDatabase_try w p s")
  with Some pingDatabase_try_frame(1) [of s p w] obtain q where q: "dbPool s' = Some q"
    by auto
  show ?thesis
  proof (cases "\<exists>e'. c = Raised e'")
    case True
    then obtain e' where "c = Raised e'" ..
    with Some tried q show ?thesis
      by (simp add: pingDatabase_caught)
  next
    case False
    with Some tried have "pingDatabase cfg w s = (c, s')"
      by (simp add: pingDatabase_completed)
    with False show ?thesis
      by simp
  qed
qed


lemma pingDatabase_dependencyHealth:
  "dependencyHealth (snd (pingDatabase cfg w s)) = dependencyHealth s"
proof (cases "dbPool s")
  case None
  then show ?thesis
    by (simp add: pingDatabase_def snd_completed initializeDatabase_dependencyHealth)
next
  case (Some p)
  obtain c s' where tried: "pingDatabase_try w p s = (c, s')"
    by (cases "pingDatabase_try w p s")
  with Some pingDatabase_try_frame(1) [of s p w] obtain q where q: "dbPool s' = Some q"
    by auto
  from tried Some pingDatabase_try_frame(2) [of s p w]
  have same: "dependencyHealth s' = dependencyHealth s"
    by simp
  show ?thesis
  proof (cases "\<exists>e. c = Raised e")
    case True
    then obtain e where "c = Raised e" ..
    with Some tried q same show ?thesis
      by (simp add: pingDatabase_caught)
  next
    case False
    with Some tried have "pingDatabase cfg w s = (c, s')"
      by (simp add: pingDatabase_completed)
    with same show ?thesis
      by simp
  qed
qed

text \<open>
  What a cycle does with a held pool, case by case. A rejected acquisition leads to the
  full teardown. A rejected query leaves its client checked out, so the awaited
  \<^verbatim>\<open>end\<close> never settles: the cycle stays pending with the status cleared and the
  reference still set, to a pool that is now ending. A cycle that finds such a pool
  fails at once, whatever the store does, and clears the reference.
\<close>

lemma pingDatabase_rejected_acquisition:
  assumes "dbPool s = Some p" and "\<not> ending p" and "checkedOut p = 0"
    and "poolConnect w = Some e"
  shows "pingDatabase cfg w s =
           (Returned, s\<lparr>isHealthy := False, trace := trace s @ [PoolConnect, PoolEnd],
                        dbPool := None\<rparr>)"
proof -
  from assms have "pingDatabase_try w p s = (Raised e, emit PoolConnect s)"
    by (simp add: pingDatabase_try_def pgConnect_def)
  from pingDatabase_caught [OF assms(1) this, of p cfg] assms show ?thesis
    by (simp add: emit_def)
qed

lemma pingDatabase_rejected_query:
  assumes "dbPool s = Some p" and "\<not> ending p" and "poolConnect w = None"
    and "clientQuery w = QueryRejected e"
  shows "pingDatabase cfg w s =
           (Pending, s\<lparr>dbPool := Some (p\<lparr>checkedOut := checkedOut p + 1, ending := True\<rparr>),
                       trace := trace s @ [PoolConnect, ClientQuery ''SELECT 1''],
                       isHealthy := False\<rparr>)"
proof -
  from assms have "pingDatabase_try w p s =
      (Raised e, s\<lparr>dbPool := Some (p\<lparr>checkedOut := checkedOut p + 1\<rparr>),
                   trace := trace s @ [PoolConnect, ClientQuery ''SELECT 1'']\<rparr>)"
    by (simp add: pingDatabase_try_def pgConnect_def emit_def Let_def)
  from pingDatabase_caught [OF assms(1) this, of "p\<lparr>checkedOut := checkedOut p + 1\<rparr>" cfg] assms
  show ?thesis
    by simp
qed

lemma pingDatabase_connection_lost:
  assumes "dbPool s = Some p" and "\<not> ending p" and "poolConnect w = None"
    and "clientQuery w = ConnectionLost e"
  shows "pingDatabase cfg w s =
           (Crashed e, s\<lparr>dbPool := Some (p\<lparr>checkedOut := checkedOut p + 1\<rparr>),
                         trace := trace s @ [PoolConnect]\<rparr>)"
proof -
  from assms have "pingDatabase_try w p s =
      (Crashed e, s\<lparr>dbPool := Some (p\<lparr>checkedOut := checkedOut p + 1\<rparr>),
                    trace := trace s @ [PoolConnect]\<rparr>)"
    by (simp add: pingDatabase_try_def pgConnect_def emit_def Let_def)
  with assms(1) show ?thesis
    by (simp add: pingDatabase_completed)
qed

lemma pingDatabase_on_ending_pool:
  assumes "dbPool s = Some p" and "ending p"
  shows "pingDatabase cfg w s =
           (Returned, s\<lparr>isHealthy := False, trace := trace s @ [PoolConnect, PoolEnd],
                        dbPool := None\<rparr>)"
proof -
  from assms have "pingDatabase_try w p s =
      (Raised (Error ''Cannot use a pool after calling end on the pool''), emit PoolConnect s)"
    by (simp add: pingDatabase_try_def pgConnect_def)
  from pingDatabase_caught [OF assms(1) this, of p cfg] assms show ?thesis
    by (simp add: emit_def)
qed

lemma pingDatabase_verified:
  assumes "dbPool s = Some p" and "\<not> ending p" and "backingStoreUp w"
  shows "pingDatabase cfg w s =
           (Returned, s\<lparr>trace := trace s @ [PoolConnect, ClientQuery ''SELECT 1'', ClientRelease],
                        isHealthy := True\<rparr>)"
proof -
  have "p\<lparr>checkedOut := checkedOut p\<rparr> = p"
    by (cases p) simp
  moreover from assms(1) have "s\<lparr>dbPool := Some p\<rparr> = s"
    by (cases s) simp
  ultimately have "pingDatabase_try w p s =
      (Returned, s\<lparr>trace := trace s @ [PoolConnect, ClientQuery ''SELECT 1'', ClientRelease],
                   isHealthy := True\<rparr>)"
    using assms
    by (simp add: pingDatabase_try_def pgConnect_def pgRelease_def backingStoreUp_def emit_def
        Let_def)
  with assms(1) show ?thesis
    by (simp add: pingDatabase_completed)
qed

lemma pingDatabase_recovers:
  assumes "secretAvailable cfg w" and "backingStoreUp w"
    and "\<forall>p. dbPool s = Some p \<longrightarrow> \<not> ending p"
  shows "fst (pingDatabase cfg w s) = Returned \<and> isHealthy (snd (pingDatabase cfg w s))"
proof (cases "dbPool s")
  case None
  with assms initializeDatabase_never_raises [of cfg w s] show ?thesis
    by (simp add: pingDatabase_def snd_completed fst_completed initializeDatabase_isHealthy
        backingStoreUp_def)
next
  case (Some p)
  with assms show ?thesis
    by (simp add: pingDatabase_verified)
qed

text \<open>
  C5. A failed verification does not always end in a cleared handle and a normal
  return. The pool is held and healthy. When the store accepts the connection and
  rejects the query, the cycle clears the status and calls \<^verbatim>\<open>end\<close>, but the client
  of the failed query was never released: the cycle stays pending and \<^verbatim>\<open>dbPool\<close>
  still refers to the pool, now ending. When the connection is lost during the query,
  the process ends before the \<^verbatim>\<open>catch\<close> runs, with the status still set.
\<close>

theorem pingDatabase_failed_query_keeps_handle:
  "pingDatabase exampleConfig worldQueryRejected
     (initialState\<lparr>dbPool := Some examplePool, isHealthy := True\<rparr>) =
     (Pending,
      initialState\<lparr>dbPool := Some (examplePool\<lparr>checkedOut := 1, ending := True\<rparr>),
                   isHealthy := False,
                   trace := [PoolConnect, ClientQuery ''SELECT 1'']\<rparr>)
   \<and> pingDatabase exampleConfig worldConnectionLost
       (initialState\<lparr>dbPool := Some examplePool, isHealthy := True\<rparr>) =
       (Crashed (Rejected ''Connection terminated unexpectedly''),
        initialState\<lparr>dbPool := Some (examplePool\<lparr>checkedOut := 1\<rparr>),
                     isHealthy := True,
                     trace := [PoolConnect]\<rparr>)"
  by (simp add: pingDatabase_def pingDatabase_try_def endIgnoringErrors_def pgConnect_def
      pgEnd_def emit_def worldQueryRejected_def worldConnectionLost_def worldUp_def
      examplePool_def initialState_def Let_def)

section \<open>Dependency probes\<close>

text \<open>
  C7. For every URL, \<^verbatim>\<open>pingDependency\<close> issues one GET to the URL followed by
  \<^verbatim>\<open>/health\<close> with a timeout of 5000 ms and returns normally; it returns true
  exactly when a response arrived with a status from 200 to 299, and false for an error
  of the transport, an expired timeout or any other status.
\<close>

theorem pingDependency_liveness:
  "pingDependency fetch url s =
     (Inr (case fetch (url @ ''/health'') ''GET'' 5000 of Inr r \<Rightarrow> ok r | Inl e \<Rightarrow> False),
      emit (HttpFetch (url @ ''/health'') ''GET'' 5000) s)
   \<and> (fst (pingDependency fetch url s) = Inr True) =
       (\<exists>r. fetch (url @ ''/health'') ''GET'' 5000 = Inr r \<and> 200 \<le> status r \<and> status r \<le> 299)"
  by (cases "fetch (url @ ''/health'') ''GET'' 5000")
    (simp_all add: pingDependency_def pingDependency_try_def ok_def Let_def)

lemma pingDependency_eq:
  "pingDependency fetch url s =
     (Inr (case fetch (url @ ''/health'') ''GET'' 5000 of Inr r \<Rightarrow> ok r | Inl e \<Rightarrow> False),
      emit (HttpFetch (url @ ''/health'') ''GET'' 5000) s)"
  by (cases "fetch (url @ ''/health'') ''GET'' 5000")
    (simp_all add: pingDependency_def pingDependency_try_def Let_def)

lemma probeCallback_eq:
  "probeCallback cfg w i s =
     (Inr (), s\<lparr>trace := trace s @ [HttpFetch (DEPENDENCIES cfg ! i @ ''/health'') ''GET'' 5000],
               dependencyHealth :=
                 mapSet (dependencyHealth s) (DEPENDENCIES cfg ! i) (probeOk w i (DEPENDENCIES cfg ! i))\<rparr>)"
  by (simp add: probeCallback_def pingDependency_eq probeOk_def emit_def Let_def)

lemma map_of_mapSet: "map_of (mapSet m k v) = (map_of m)(k \<mapsto> v)"
  by (induction m) auto

lemma allSettled_frame:
  "isHealthy (allSettled cfg w order s) = isHealthy s"
  "dbPool (allSettled cfg w order s) = dbPool s"
  "handleHistory (trace (allSettled cfg w order s)) = handleHistory (trace s)"
  by (induction order arbitrary: s) (simp_all add: probeCallback_eq)

lemma allSettled_lookup:
  "map_of (dependencyHealth (allSettled cfg w order s)) v =
     (case lastSettled (DEPENDENCIES cfg) order v of
        None \<Rightarrow> map_of (dependencyHealth s) v
      | Some i \<Rightarrow> Some (probeOk w i v))"
  by (induction order arbitrary: s)
    (auto simp add: probeCallback_eq map_of_mapSet split: option.splits)

lemma lastSettled_Some:
  "lastSettled deps order v = Some i \<Longrightarrow> i \<in> set order \<and> i < length deps \<and> deps ! i = v"
  by (induction order) (auto split: option.splits if_splits)

lemma lastSettled_None:
  "lastSettled deps order v = None \<Longrightarrow> i \<in> set order \<Longrightarrow> i < length deps \<Longrightarrow> deps ! i \<noteq> v"
  by (induction order) (auto split: option.splits if_splits)

lemma pingDependencies_never_raises: "fst (pingDependencies cfg w s) = Inr ()"
  by (simp add: pingDependencies_def)

lemma pingDependencies_frame:
  "isHealthy (snd (pingDependencies cfg w s)) = isHealthy s"
  "dbPool (snd (pingDependencies cfg w s)) = dbPool s"
  "handleHistory (trace (snd (pingDependencies cfg w s))) = handleHistory (trace s)"
  by (simp_all add: pingDependencies_def allSettled_frame)

lemma pingDependencies_lookup:
  "map_of (dependencyHealth (snd (pingDependencies cfg w s))) v =
     (case lastSettled (DEPENDENCIES cfg) (completion w) v of
        None \<Rightarrow> map_of (dependencyHealth s) v
      | Some i \<Rightarrow> Some (probeOk w i v))"
proof (cases "DEPENDENCIES cfg")
  case Nil
  have "lastSettled [] order v = None" for order
    by (induction order) simp_all
  with Nil show ?thesis
    by (simp add: pingDependencies_def)
next
  case (Cons d ds)
  then show ?thesis
    by (simp add: pingDependencies_def allSettled_lookup)
qed

text \<open>
  C8. In every round, if the probes of a probed URL \<open>u\<close> fail, the round records
  \<open>false\<close> under \<open>u\<close>, and nothing else depends on that failure: the value recorded
  under any other URL is the one recorded by the same round in a world that differs
  only in what the probes of \<open>u\<close> answer, the value of a URL that is not declared is
  the one from before the round, and the overall status is untouched.
\<close>

theorem pingDependencies_failure_isolated:
  assumes probed: "i \<in> set (completion w)" "i < length (DEPENDENCIES cfg)" "DEPENDENCIES cfg ! i = u"
    and fails: "\<forall>j < length (DEPENDENCIES cfg). DEPENDENCIES cfg ! j = u \<longrightarrow> \<not> probeOk w j u"
    and other: "completion w' = completion w"
      "\<forall>j. DEPENDENCIES cfg ! j \<noteq> u \<longrightarrow> httpFetch w' j = httpFetch w j"
  shows "fst (pingDependencies cfg w s) = Inr ()
       \<and> map_of (dependencyHealth (snd (pingDependencies cfg w s))) u = Some False
       \<and> (\<forall>v. v \<noteq> u \<longrightarrow>
            map_of (dependencyHealth (snd (pingDependencies cfg w s))) v =
            map_of (dependencyHealth (snd (pingDependencies cfg w' s))) v)
       \<and> (\<forall>v. v \<notin> set (DEPENDENCIES cfg) \<longrightarrow>
            map_of (dependencyHealth (snd (pingDependencies cfg w s))) v =
            map_of (dependencyHealth s) v)
       \<and> isHealthy (snd (pingDependencies cfg w s)) = isHealthy s"
proof -
  have own: "map_of (dependencyHealth (snd (pingDependencies cfg w s))) u = Some False"
  proof (cases "lastSettled (DEPENDENCIES cfg) (completion w) u")
    case None
    with probed lastSettled_None [of "DEPENDENCIES cfg" "completion w" u i] show ?thesis
      by simp
  next
    case (Some j)
    with lastSettled_Some [of "DEPENDENCIES cfg" "completion w" u j] fails
    have "\<not> probeOk w j u"
      by simp
    with Some show ?thesis
      by (simp add: pingDependencies_lookup)
  qed
  have others: "map_of (dependencyHealth (snd (pingDependencies cfg w s))) v =
            map_of (dependencyHealth (snd (pingDependencies cfg w' s))) v" if "v \<noteq> u" for v
  proof (cases "lastSettled (DEPENDENCIES cfg) (completion w) v")
    case None
    with other(1) show ?thesis
      by (simp add: pingDependencies_lookup)
  next
    case (Some j)
    with lastSettled_Some [of "DEPENDENCIES cfg" "completion w" v j] that other(2)
    have "httpFetch w' j = httpFetch w j"
      by simp
    then have "probeOk w' j v = probeOk w j v"
      by (simp add: probeOk_def)
    with Some other(1) show ?thesis
      by (simp add: pingDependencies_lookup)
  qed
  have undeclared: "map_of (dependencyHealth (snd (pingDependencies cfg w s))) v =
            map_of (dependencyHealth s) v" if "v \<notin> set (DEPENDENCIES cfg)" for v
  proof (cases "lastSettled (DEPENDENCIES cfg) (completion w) v")
    case None
    then show ?thesis
      by (simp add: pingDependencies_lookup)
  next
    case (Some j)
    with lastSettled_Some [of "DEPENDENCIES cfg" "completion w" v j] that show ?thesis
      by auto
  qed
  from own others undeclared show ?thesis
    by (simp add: pingDependencies_never_raises pingDependencies_frame)
qed

theorem pingDependencies_failure_isolated_witness:
  "dependencyHealth (snd (pingDependencies exampleConfig exampleDepWorld
      (initialState\<lparr>isHealthy := True, dependencyHealth := [(''http://billing:3000'', True)]\<rparr>))) =
     [(''http://billing:3000'', False), (''http://stock:3000'', True)]
   \<and> map_of (dependencyHealth (snd (pingDependencies exampleConfig exampleDepWorldUp
      (initialState\<lparr>isHealthy := True, dependencyHealth := [(''http://billing:3000'', True)]\<rparr>))))
        ''http://stock:3000'' = Some True
   \<and> isHealthy (snd (pingDependencies exampleConfig exampleDepWorld
      (initialState\<lparr>isHealthy := True, dependencyHealth := [(''http://billing:3000'', True)]\<rparr>)))"
proof -
  have fails: "\<forall>j < length (DEPENDENCIES exampleConfig).
      DEPENDENCIES exampleConfig ! j = ''http://billing:3000'' \<longrightarrow>
      \<not> probeOk exampleDepWorld j ''http://billing:3000''"
    by (simp add: exampleConfig_def exampleDepWorld_def probeOk_def less_Suc_eq)
  have other: "\<forall>j. DEPENDENCIES exampleConfig ! j \<noteq> ''http://billing:3000'' \<longrightarrow>
      httpFetch exampleDepWorldUp j = httpFetch exampleDepWorld j"
  proof (intro allI impI)
    fix j
    assume "DEPENDENCIES exampleConfig ! j \<noteq> ''http://billing:3000''"
    then have "j \<noteq> 0"
      by (cases j) (simp_all add: exampleConfig_def)
    then show "httpFetch exampleDepWorldUp j = httpFetch exampleDepWorld j"
      by (simp add: exampleDepWorldUp_def exampleDepWorld_def)
  qed
  have "0 \<in> set (completion exampleDepWorld)" "0 < length (DEPENDENCIES exampleConfig)"
    "DEPENDENCIES exampleConfig ! 0 = ''http://billing:3000''"
    "completion exampleDepWorldUp = completion exampleDepWorld"
    by (simp_all add: exampleConfig_def exampleDepWorld_def exampleDepWorldUp_def)
  from pingDependencies_failure_isolated [OF this(1-3) fails this(4) other,
      of "initialState\<lparr>isHealthy := True, dependencyHealth := [(''http://billing:3000'', True)]\<rparr>"]
  show ?thesis
    by (simp add: pingDependencies_def probeCallback_eq probeOk_def exampleConfig_def
        exampleDepWorld_def exampleDepWorldUp_def initialState_def ok_def)
qed

section \<open>The health endpoint\<close>

lemma field_health:
  "field (snd (health cfg now s)) ''status'' =
     Some (JStr (if isHealthy s then ''healthy'' else ''unhealthy''))"
  "field (snd (health cfg now s)) ''database'' =
     Some (JStr (if isHealthy s then ''connected'' else ''disconnected''))"
  "field (snd (health cfg now s)) ''dependencies'' = Some (fromEntries (dependencyHealth s))"
  "fst (health cfg now s) = (if isHealthy s then 200 else 503)"
  by (simp_all add: health_def Let_def)

lemma map_of_entries:
  "map_of (map (\<lambda>(k, b). (k, JBool b)) m) = map_option JBool \<circ> map_of m"
  by (induction m) (auto simp add: fun_eq_iff)

text \<open>
  C3. With the status connected and the dependency record \<open>{a: true, b: false}\<close>, the
  body of the health response has status \<^verbatim>\<open>healthy\<close>, database \<^verbatim>\<open>connected\<close> and
  dependencies \<open>{a: true, b: false}\<close>; and in every state the response code is 200
  when the status of the body is \<^verbatim>\<open>healthy\<close> and 503 otherwise.
\<close>

theorem health_snapshot:
  assumes "isHealthy s" and "map_of (dependencyHealth s) = [a \<mapsto> True, b \<mapsto> False]"
  shows "field (snd (health cfg now s)) ''status'' = Some (JStr ''healthy'')
       \<and> field (snd (health cfg now s)) ''database'' = Some (JStr ''connected'')
       \<and> (\<exists>deps. field (snd (health cfg now s)) ''dependencies'' = Some (JObj deps)
              \<and> map_of deps = [a \<mapsto> JBool True, b \<mapsto> JBool False])
       \<and> fst (health cfg now t) =
           (if field (snd (health cfg now t)) ''status'' = Some (JStr ''healthy'') then 200 else 503)"
  using assms
  by (simp add: field_health fromEntries_def map_of_entries fun_eq_iff)

theorem health_snapshot_witness:
  "health exampleConfig ''2024-01-01T00:00:00.000Z''
     (initialState\<lparr>isHealthy := True, dependencyHealth := [(''A'', True), (''B'', False)]\<rparr>) =
     (200, JObj [(''service'', JStr ''orders''), (''status'', JStr ''healthy''),
                 (''timestamp'', JStr ''2024-01-01T00:00:00.000Z''),
                 (''database'', JStr ''connected''),
                 (''dependencies'', JObj [(''A'', JBool True), (''B'', JBool False)])])
   \<and> fst (health exampleConfig ''2024-01-01T00:00:00.000Z'' initialState) = 503"
proof -
  let ?s = "initialState\<lparr>isHealthy := True, dependencyHealth := [(''A'', True), (''B'', False)]\<rparr>"
  have connected: "isHealthy ?s"
    by simp
  have both: "map_of (dependencyHealth ?s) = [''A'' \<mapsto> True, ''B'' \<mapsto> False]"
    by (auto simp add: fun_eq_iff)
  from health_snapshot [OF connected both, of exampleConfig "''2024-01-01T00:00:00.000Z''"
      initialState]
  show ?thesis
    by (simp add: health_def fromEntries_def exampleConfig_def initialState_def Let_def)
qed

section \<open>The running service\<close>

lemma fire_never_raises: "fst (fire cfg t s) \<noteq> Raised e"
proof (cases t)
  case (DatabaseTick w)
  then show ?thesis
    by (simp add: fire_def pingDatabase_never_raises)
next
  case (DependenciesTick d)
  then show ?thesis
    using pingDependencies_never_raises [of cfg d s]
    by (simp add: fire_def fst_completed)
next
  case (IdleClientError e')
  then show ?thesis
    by (simp add: fire_def split: option.splits)
qed

lemma run_invariant:
  assumes step: "\<And>t s. P s \<Longrightarrow> P (snd (fire cfg t s))" and start: "P s"
  shows "P (snd (run cfg ts s))"
  using start
proof (induction ts arbitrary: s)
  case Nil
  then show ?case by simp
next
  case (Cons t ts)
  obtain c s' where fired: "fire cfg t s = (c, s')"
    by (cases "fire cfg t s")
  with step [OF Cons.prems, of t] have "P s'"
    by simp
  with fired Cons.IH [of s'] show ?case
    by (cases c) simp_all
qed

lemma run_never_raises: "fst (run cfg ts s) \<noteq> Raised e"
proof (induction ts arbitrary: s)
  case Nil
  show ?case by simp
next
  case (Cons t ts)
  obtain c s' where fired: "fire cfg t s = (c, s')"
    by (cases "fire cfg t s")
  with fire_never_raises [of cfg t s e] have "c \<noteq> Raised e"
    by simp
  with fired Cons [of s'] show ?case
    by (cases c) simp_all
qed

lemma main_never_raises: "fst (main cfg w d) = Inr ()"
proof -
  obtain r s where init: "initializeDatabase cfg w initialState = (r, s)"
    by (cases "initializeDatabase cfg w initialState")
  with initializeDatabase_never_raises [of cfg w initialState] have "r = Inr ()"
    by simp
  with init show ?thesis
    by (simp add: main_def pingDependencies_never_raises)
qed

lemma main_eq:
  "snd (main cfg w d) =
     (if length (DEPENDENCIES cfg) > 0
      then snd (pingDependencies cfg d (snd (initializeDatabase cfg w initialState)))
      else snd (initializeDatabase cfg w initialState))"
proof -
  obtain r s where init: "initializeDatabase cfg w initialState = (r, s)"
    by (cases "initializeDatabase cfg w initialState")
  with initializeDatabase_never_raises [of cfg w initialState] have "r = Inr ()"
    by simp
  with init show ?thesis
    by (simp add: main_def)
qed

lemma service_eq: "service cfg w d ts = run cfg ts (snd (main cfg w d))"
proof -
  obtain r s where started: "main cfg w d = (r, s)"
    by (cases "main cfg w d")
  with main_never_raises [of cfg w d] have "r = Inr ()"
    by simp
  with started show ?thesis
    by (simp add: service_def)
qed

lemma service_never_raises: "fst (service cfg w d ts) \<noteq> Raised e"
  by (simp add: service_eq run_never_raises)




lemma fire_dependencyHealth_empty:
  assumes "DEPENDENCIES cfg = []"
  shows "dependencyHealth (snd (fire cfg t s)) = dependencyHealth s"
  using assms
  by (cases t) (simp_all add: fire_def pingDatabase_dependencyHealth split: option.splits)

lemma run_dependencyHealth_empty:
  assumes "DEPENDENCIES cfg = []"
  shows "dependencyHealth (snd (run cfg ts s)) = dependencyHealth s"
proof -
  have "dependencyHealth (snd (run cfg ts s)) = dependencyHealth s"
    by (rule run_invariant [where P = "\<lambda>t. dependencyHealth t = dependencyHealth s"])
      (simp_all add: fire_dependencyHealth_empty assms)
  then show ?thesis .
qed



text \<open>
  C2. The first cycle after a recovery does not always end connected. The service
  starts connected. In the next cycle the store accepts the connection and cancels the
  query: the cycle clears the status and stays pending on \<^verbatim>\<open>end\<close>, with
  \<^verbatim>\<open>dbPool\<close> still referring to the pool, now ending. Then the store is up again. The
  first cycle after that finds the ending pool: the acquisition is refused by the pool
  itself, the status stays cleared and only the reference is cleared. The status is set
  again by the second cycle after the recovery.
\<close>

theorem service_recovery_needs_two_cycles:
  "secretAvailable (exampleConfig\<lparr>DEPENDENCIES := []\<rparr>) worldUp \<and> backingStoreUp worldUp
   \<and> isHealthy (snd (service (exampleConfig\<lparr>DEPENDENCIES := []\<rparr>) worldUp exampleDepWorld []))
   \<and> service (exampleConfig\<lparr>DEPENDENCIES := []\<rparr>) worldUp exampleDepWorld
        [DatabaseTick worldQueryRejected, DatabaseTick worldUp] =
       (Returned,
        \<lparr>dbPool = None, isHealthy = False,
          dbConnectionString = Some (JStr ''postgres://db''), dependencyHealth = [],
          trace = [SecretsSend ''arn:aws:secretsmanager:db'', PoolCreated examplePool,
                   PoolConnect, ClientRelease,
                   PoolConnect, ClientQuery ''SELECT 1'',
                   PoolConnect, PoolEnd]\<rparr>)
   \<and> isHealthy (snd (service (exampleConfig\<lparr>DEPENDENCIES := []\<rparr>) worldUp exampleDepWorld
        [DatabaseTick worldQueryRejected, DatabaseTick worldUp, DatabaseTick worldUp]))"
  by (simp add: service_def main_def fire_def pingDatabase_def pingDatabase_try_def
      endIgnoringErrors_def completed_def pgConnect_def pgRelease_def pgEnd_def
      initializeDatabase_def initializeDatabase_try_def poolOptions_def
      secretAvailable_def backingStoreUp_def
      fetchDatabaseCredentials_def selectConnectionString_def emit_def exampleConfig_def
      worldQueryRejected_def worldUp_def examplePool_def initialState_def Let_def)

text \<open>
  C9. With no declared dependency, a round of \<^verbatim>\<open>pingDependencies\<close> changes nothing
  and makes no call (the trace is part of the state), the body of the health response
  always has a \<^verbatim>\<open>dependencies\<close> field, and in every state the service reaches that
  field is the empty object.
\<close>

theorem pingDependencies_empty:
  assumes "DEPENDENCIES cfg = []"
  shows "pingDependencies cfg d s = (Inr (), s)
       \<and> field (snd (health cfg now s)) ''dependencies'' = Some (fromEntries (dependencyHealth s))
       \<and> field (snd (health cfg now (snd (service cfg w d0 ts)))) ''dependencies'' = Some (JObj [])"
proof -
  have "dependencyHealth (snd (service cfg w d0 ts)) = []"
    using assms
    by (simp add: service_eq run_dependencyHealth_empty main_eq initializeDatabase_dependencyHealth
        initialState_def)
  with assms show ?thesis
    by (simp add: pingDependencies_def field_health fromEntries_def)
qed

theorem pingDependencies_empty_witness:
  "pingDependencies (exampleConfig\<lparr>DEPENDENCIES := []\<rparr>) exampleDepWorld initialState =
     (Inr (), initialState)
   \<and> field (snd (health (exampleConfig\<lparr>DEPENDENCIES := []\<rparr>) ''2024-01-01T00:00:00.000Z''
        (snd (service (exampleConfig\<lparr>DEPENDENCIES := []\<rparr>) worldUp exampleDepWorld
           [DependenciesTick exampleDepWorld, DatabaseTick worldDown]))))
       ''dependencies'' = Some (JObj [])"
proof -
  have none: "DEPENDENCIES (exampleConfig\<lparr>DEPENDENCIES := []\<rparr>) = []"
    by simp
  from pingDependencies_empty [OF none, of exampleDepWorld initialState
      "''2024-01-01T00:00:00.000Z''" worldUp exampleDepWorld
      "[DependenciesTick exampleDepWorld, DatabaseTick worldDown]"]
  show ?thesis
    by simp
qed

end
